theory Spec2Isabelle
  imports Complex_Main "HOL-Library.AList"
begin

section \<open>The ghiseul.ro monitor (main.py) as state-passing functions\<close>

text \<open>
  The monitor drives a browser through two flows (login, debit), collects the outcome of
  every flow in a dictionary and publishes that dictionary in the module global
  \<open>OUTPUT\<close>, which the web route serialises. The browser, the clocks and the
  sleep are the program's environment: every interaction with them is recorded, in order,
  in the history of the world, and what the environment answers is given by an oracle that
  may depend on everything that happened before. Theorems quantify over all oracles.

  Logging and the printing of tracebacks are not modelled, except where the logged text
  itself asks the browser for something.
\<close>

subsection \<open>Python values, exceptions, events\<close>

datatype pyval =
    PBool bool
  | PStr string
  | PFloat real
  | PDict "(string \<times> pyval) list"

text \<open>A Python dict keeps its keys in insertion order: an association list.\<close>

type_synonym pydict = "(string \<times> pyval) list"

datatype exn =
    AttributeError
  | KeyError
  | TypeError
  | ValueError
  | TimeoutException
  | WebDriverException

text \<open>
  Element handles are named by the id they were located with; a browser session by the
  number of sessions created before it.
\<close>

datatype event =
    DriverCreate nat
  | DriverQuit nat
  | DriverGet string
  | DriverCurrentUrl
  | WaitVisible string
  | FindElement string
  | ElemClick string
  | ElemSendKeys string string
  | ElemSubmit string
  | Sleep real
  | TimeRead
  | DateRead
  | OutputWritten

record env =
  raises :: "event list \<Rightarrow> event \<Rightarrow> exn option"
  location :: "event list \<Rightarrow> string"
  clock :: "event list \<Rightarrow> real"
  calendar :: "event list \<Rightarrow> string"

text \<open>
  \<open>driver\<close> is the attribute \<open>self.driver\<close>: \<open>None\<close> as long as no session
  was ever assigned to it (reading it then raises AttributeError). \<open>self.wait\<close> is
  assigned together with it. \<open>created\<close> counts the sessions created so far.
\<close>

record world =
  history :: "event list"
  driver :: "nat option"
  created :: nat
  OUTPUT :: pydict

record config =
  username :: string
  password :: string
  institution :: string
  persistent_driver :: bool
  render_timeout :: int
  driver_dir :: string

type_synonym 'a act = "world \<Rightarrow> (exn + 'a) \<times> world"

subsection \<open>Sequencing, raising and catching\<close>

definition return :: "'a \<Rightarrow> 'a act" where
  "return a w = (Inr a, w)"

definition seq :: "'a act \<Rightarrow> ('a \<Rightarrow> 'b act) \<Rightarrow> 'b act" where
  "seq m f w = (case m w of (Inl e, w') \<Rightarrow> (Inl e, w') | (Inr a, w') \<Rightarrow> f a w')"

definition andthen :: "unit act \<Rightarrow> 'b act \<Rightarrow> 'b act" where
  "andthen m k = seq m (\<lambda>_. k)"

text \<open>
  \<open>guarded body err rest\<close> is
  \<^verbatim>\<open>try: body  except Exception: return False, err\<close> followed by \<open>rest\<close>:
  every exception of the body ends the flow with the pair \<open>(False, err)\<close>.
\<close>

definition guarded :: "unit act \<Rightarrow> string \<Rightarrow> (bool \<times> string) act \<Rightarrow> (bool \<times> string) act" where
  "guarded body err rest w =
     (case body w of
        (Inl e, w') \<Rightarrow> (Inr (False, err), w')
      | (Inr u, w') \<Rightarrow> rest w')"

subsection \<open>The environment's operations\<close>

definition record_event :: "event \<Rightarrow> world \<Rightarrow> world" where
  "record_event ev w = w\<lparr>history := history w @ [ev]\<rparr>"

definition browser_call :: "env \<Rightarrow> event \<Rightarrow> unit act" where
  "browser_call env ev w =
     (case raises env (history w) ev of
        Some e \<Rightarrow> (Inl e, record_event ev w)
      | None \<Rightarrow> (Inr (), record_event ev w))"

definition with_driver :: "(nat \<Rightarrow> 'a act) \<Rightarrow> 'a act" where
  "with_driver f w = (case driver w of None \<Rightarrow> (Inl AttributeError, w) | Some k \<Rightarrow> f k w)"

definition driver_get :: "env \<Rightarrow> string \<Rightarrow> unit act" where
  "driver_get env url = with_driver (\<lambda>k. browser_call env (DriverGet url))"

definition current_url :: "env \<Rightarrow> string act" where
  "current_url env =
     with_driver (\<lambda>k w.
       case raises env (history w) DriverCurrentUrl of
         Some e \<Rightarrow> (Inl e, record_event DriverCurrentUrl w)
       | None \<Rightarrow> (Inr (location env (history w)), record_event DriverCurrentUrl w))"

definition wait_until_visible :: "env \<Rightarrow> string \<Rightarrow> unit act" where
  "wait_until_visible env ident = with_driver (\<lambda>k. browser_call env (WaitVisible ident))"

definition find_element :: "env \<Rightarrow> string \<Rightarrow> unit act" where
  "find_element env ident = with_driver (\<lambda>k. browser_call env (FindElement ident))"

definition click :: "env \<Rightarrow> string \<Rightarrow> unit act" where
  "click env ident = browser_call env (ElemClick ident)"

definition send_keys :: "env \<Rightarrow> string \<Rightarrow> string \<Rightarrow> unit act" where
  "send_keys env ident txt = browser_call env (ElemSendKeys ident txt)"

definition submit :: "env \<Rightarrow> string \<Rightarrow> unit act" where
  "submit env ident = browser_call env (ElemSubmit ident)"

text \<open>\<open>time.sleep\<close> refuses a negative length with ValueError.\<close>

definition sleep :: "real \<Rightarrow> unit act" where
  "sleep secs w = (if secs < 0 then (Inl ValueError, w) else (Inr (), record_event (Sleep secs) w))"

definition time_time :: "env \<Rightarrow> real act" where
  "time_time env w = (Inr (clock env (history w)), record_event TimeRead w)"

definition datetime_now :: "env \<Rightarrow> string act" where
  "datetime_now env w = (Inr (calendar env (history w)), record_event DateRead w)"

subsection \<open>Class constants of GhiseulMonitor\<close>

definition login_page :: string where
  "login_page = ''https://www.ghiseul.ro/ghiseul/public/''"

definition debit_page :: string where
  "debit_page = ''https://www.ghiseul.ro/ghiseul/public/debite''"

definition login_username_element :: string where "login_username_element = ''username''"
definition login_password_element :: string where "login_password_element = ''passwordP''"
definition login_passwordT_element :: string where "login_passwordT_element = ''passwordT''"
definition login_form_element :: string where "login_form_element = ''login''"
definition debit_show_element :: string where "debit_show_element = ''showDebiteBtn_''"
definition debit_pay_form :: string where "debit_pay_form = ''detalii_''"

text \<open>The class attribute \<open>output\<close>.\<close>

definition class_output :: pydict where
  "class_output =
     [(''flows'', PDict []),
      (''success'', PBool False),
      (''error'', PStr ''''),
      (''duration'', PFloat 0),
      (''date'', PStr '''')]"

definition short_delay :: real where
  "short_delay = 1 / 2"

definition flows :: "string list" where
  "flows = [''login'', ''debit'']"

subsection \<open>The browser session\<close>

text \<open>
  \<open>__create_driver\<close>: when the constructor of the browser session raises, neither
  attribute is assigned.
\<close>

definition create_driver :: "env \<Rightarrow> unit act" where
  "create_driver env w =
     (let k = created w; w' = record_event (DriverCreate k) w in
      case raises env (history w) (DriverCreate k) of
        Some e \<Rightarrow> (Inl e, w')
      | None \<Rightarrow> (Inr (), w'\<lparr>driver := Some k, created := Suc k\<rparr>))"

definition init :: "config \<Rightarrow> env \<Rightarrow> unit act" where
  "init cfg env = (if persistent_driver cfg then create_driver env else return ())"

definition quit :: "env \<Rightarrow> unit act" where
  "quit env = with_driver (\<lambda>k. browser_call env (DriverQuit k))"

subsection \<open>The two flows\<close>

text \<open>
  \<open>_login\<close>. The warning logged on the redirect reads \<open>current_url\<close> a second
  time.
\<close>

definition login :: "config \<Rightarrow> env \<Rightarrow> (bool \<times> string) act" where
  "login cfg env =
     andthen (driver_get env login_page)
     (seq (current_url env) (\<lambda>url.
        if \<not> (url = login_page) then
          seq (current_url env) (\<lambda>logged. return (True, ''''))
        else
          guarded
            (andthen (wait_until_visible env login_form_element)
            (andthen (find_element env login_username_element)
            (andthen (find_element env login_password_element)
                     (find_element env login_passwordT_element))))
            ''Could not find login for or input fields''
          (guarded
            (andthen (click env login_username_element)
            (andthen (send_keys env login_username_element (username cfg))
            (andthen (sleep short_delay)
            (andthen (click env login_passwordT_element)
            (andthen (click env login_password_element)
            (andthen (send_keys env login_password_element (password cfg))
                     (sleep short_delay)))))))
            ''Could not fill in login form''
          (guarded
            (submit env login_form_element)
            ''Could not submit login form''
          (return (True, ''''))))))"

text \<open>\<open>_debit\<close>.\<close>

definition debit :: "config \<Rightarrow> env \<Rightarrow> (bool \<times> string) act" where
  "debit cfg env =
     seq (current_url env) (\<lambda>url.
     andthen (if \<not> (url = debit_page) then driver_get env debit_page else return ())
     (guarded
        (wait_until_visible env (institution cfg))
        ''Could not find institution element''
     (guarded
        (andthen (wait_until_visible env (debit_show_element @ institution cfg))
                 (click env (debit_show_element @ institution cfg)))
        ''Could not find show button for instituion''
     (guarded
        (wait_until_visible env (debit_pay_form @ institution cfg))
        ''Could not find pay button for instituion''
     (return (True, ''''))))))"

subsection \<open>Dictionary access and the built-ins used by execute\<close>

definition raise :: "exn \<Rightarrow> 'a act" where
  "raise e w = (Inl e, w)"

definition lift :: "exn + 'a \<Rightarrow> 'a act" where
  "lift r w = (r, w)"

definition bind_exn :: "exn + 'a \<Rightarrow> ('a \<Rightarrow> exn + 'b) \<Rightarrow> exn + 'b" where
  "bind_exn r f = (case r of Inl e \<Rightarrow> Inl e | Inr a \<Rightarrow> f a)"

definition getitem :: "pydict \<Rightarrow> string \<Rightarrow> exn + pyval" where
  "getitem d k = (case map_of d k of None \<Rightarrow> Inl KeyError | Some v \<Rightarrow> Inr v)"

definition setitem :: "pydict \<Rightarrow> string \<Rightarrow> pyval \<Rightarrow> pydict" where
  "setitem d k v = AList.update k v d"

text \<open>
  The entries of the output dictionary keep the kinds of value the class attribute gives
  them, so the branches for another kind of value are never taken; they raise TypeError
  (where Python would subscript, format or add a value of that kind in its own way).
\<close>

definition as_dict :: "pyval \<Rightarrow> exn + pydict" where
  "as_dict v = (case v of PDict d \<Rightarrow> Inr d | _ \<Rightarrow> Inl TypeError)"

definition as_str :: "pyval \<Rightarrow> exn + string" where
  "as_str v = (case v of PStr s \<Rightarrow> Inr s | _ \<Rightarrow> Inl TypeError)"

definition as_float :: "pyval \<Rightarrow> exn + real" where
  "as_float v = (case v of PFloat r \<Rightarrow> Inr r | _ \<Rightarrow> Inl TypeError)"

text \<open>\<open>str.upper\<close> on ASCII letters.\<close>

definition upper_char :: "char \<Rightarrow> char" where
  "upper_char c =
     (let n = (of_char c :: nat) in if 97 \<le> n \<and> n \<le> 122 then char_of (n - 32) else c)"

definition upper :: "string \<Rightarrow> string" where
  "upper s = map upper_char s"

text \<open>
  \<open>round(x, 2)\<close>: to the nearest multiple of 0.01, a tie to the even one. Python's
  floats are modelled by the real numbers they stand for.
\<close>

definition round_half_even :: "real \<Rightarrow> int" where
  "round_half_even x =
     (let f = \<lfloor>x\<rfloor>; d = x - of_int f in
      if d < 1 / 2 then f
      else if 1 / 2 < d then f + 1
      else if even f then f else f + 1)"

definition round2 :: "real \<Rightarrow> real" where
  "round2 x = of_int (round_half_even (x * 100)) / 100"

text \<open>\<open>False == v\<close>, as the test \<open>False not in [...]\<close> compares.\<close>

definition eq_False :: "pyval \<Rightarrow> bool" where
  "eq_False v = (case v of PBool b \<Rightarrow> \<not> b | PFloat r \<Rightarrow> r = 0 | _ \<Rightarrow> False)"

primrec collect :: "(exn + 'a) list \<Rightarrow> exn + 'a list" where
  "collect [] = Inr []"
| "collect (r # rs) =
     (case r of Inl e \<Rightarrow> Inl e
      | Inr a \<Rightarrow> (case collect rs of Inl e \<Rightarrow> Inl e | Inr as \<Rightarrow> Inr (a # as)))"

subsection \<open>execute\<close>

text \<open>The three assignments at the end of the loop body.\<close>

definition store_flow :: "pydict \<Rightarrow> string \<Rightarrow> bool \<Rightarrow> string \<Rightarrow> real \<Rightarrow> exn + pydict" where
  "store_flow out flow flow_output flow_err flow_timer =
     bind_exn (getitem out ''flows'') (\<lambda>fl.
     bind_exn (as_dict fl) (\<lambda>d.
     let out1 = setitem out ''flows'' (PDict (setitem d flow (PBool flow_output))) in
     bind_exn (getitem out1 ''error'') (\<lambda>err.
     bind_exn (if flow_err \<noteq> []
               then bind_exn (as_str err) (\<lambda>s.
                      Inr (PStr (s @ upper flow @ '': '' @ flow_err @ ''; '')))
               else Inr err) (\<lambda>err'.
     let out2 = setitem out1 ''error'' err' in
     bind_exn (getitem out2 ''duration'') (\<lambda>dur.
     bind_exn (as_float dur) (\<lambda>r.
     Inr (setitem out2 ''duration'' (PFloat (round2 (r + flow_timer))))))))))"

text \<open>\<open>getattr(self, f"_{flow}")()\<close>.\<close>

definition call_flow :: "config \<Rightarrow> env \<Rightarrow> string \<Rightarrow> (bool \<times> string) act" where
  "call_flow cfg env flow =
     (if flow = ''login'' then login cfg env
      else if flow = ''debit'' then debit cfg env
      else raise AttributeError)"

text \<open>
  The flow between its two readings of \<open>time.time()\<close>: the flow's result and
  \<open>flow_timer\<close>.
\<close>

definition timed_flow :: "config \<Rightarrow> env \<Rightarrow> string \<Rightarrow> ((bool \<times> string) \<times> real) act" where
  "timed_flow cfg env flow =
     seq (time_time env) (\<lambda>t0.
     seq (call_flow cfg env flow) (\<lambda>res.
     seq (time_time env) (\<lambda>t1.
     return (res, t1 - t0))))"

primrec run_flows :: "string list \<Rightarrow> config \<Rightarrow> env \<Rightarrow> pydict \<Rightarrow> pydict act" where
  "run_flows [] cfg env out = return out"
| "run_flows (flow # rest) cfg env out =
     seq (timed_flow cfg env flow) (\<lambda>((flow_output, flow_err), flow_timer).
     seq (lift (store_flow out flow flow_output flow_err flow_timer)) (\<lambda>out'.
     run_flows rest cfg env out'))"

text \<open>\<open>False not in [output["flows"][f] for f in self.flows]\<close>.\<close>

definition flows_ok :: "pydict \<Rightarrow> exn + bool" where
  "flows_ok out =
     bind_exn (collect (map (\<lambda>f. bind_exn (getitem out ''flows'') (\<lambda>fl.
                                  bind_exn (as_dict fl) (\<lambda>d. getitem d f))) flows)) (\<lambda>vs.
     Inr (\<not> list_ex eq_False vs))"

definition execute :: "config \<Rightarrow> env \<Rightarrow> pydict act" where
  "execute cfg env =
     seq (datetime_now env) (\<lambda>now.
     seq (run_flows flows cfg env (setitem class_output ''date'' (PStr now))) (\<lambda>out.
     seq (lift (flows_ok out)) (\<lambda>ok.
     return (setitem out ''success'' (PBool ok)))))"

subsection \<open>run, and the web route\<close>

definition write_OUTPUT :: "pydict \<Rightarrow> unit act" where
  "write_OUTPUT out w = (Inr (), record_event OutputWritten (w\<lparr>OUTPUT := out\<rparr>))"

text \<open>
  \<open>run\<close> never returns by itself. \<open>run_loop fuel\<close> is the loop cut after
  \<open>fuel\<close> iterations: it gives the iteration counter and the world reached then, or
  the exception that ended the loop earlier.
\<close>

text \<open>The body of the \<open>while True\<close> loop, but for the counter.\<close>

definition iteration :: "config \<Rightarrow> env \<Rightarrow> int \<Rightarrow> unit act" where
  "iteration cfg env refresh =
     andthen (if \<not> persistent_driver cfg then create_driver env else return ())
     (seq (execute cfg env) (\<lambda>out.
     andthen (write_OUTPUT out)
     (andthen (sleep (of_int (refresh * 60)))
     (if \<not> persistent_driver cfg then quit env else return ()))))"

primrec run_loop :: "nat \<Rightarrow> config \<Rightarrow> env \<Rightarrow> int \<Rightarrow> nat \<Rightarrow> nat act" where
  "run_loop 0 cfg env refresh i = return i"
| "run_loop (Suc fuel) cfg env refresh i =
     andthen (iteration cfg env refresh) (run_loop fuel cfg env refresh (i + 1))"

definition run :: "nat \<Rightarrow> config \<Rightarrow> env \<Rightarrow> int \<Rightarrow> nat act" where
  "run fuel cfg env refresh = run_loop fuel cfg env refresh 0"

text \<open>The module starts with \<open>OUTPUT = {}\<close> and a monitor that has no attribute yet.\<close>

definition world0 :: world where
  "world0 = \<lparr>history = [], driver = None, created = 0, OUTPUT = []\<rparr>"


text \<open>
  The main program, as far as the monitor goes: the monitor is constructed, then its
  \<open>run\<close> is started.
\<close>

definition main :: "nat \<Rightarrow> config \<Rightarrow> env \<Rightarrow> int \<Rightarrow> nat act" where
  "main fuel cfg env refresh = andthen (init cfg env) (run fuel cfg env refresh)"

subsection \<open>Notions used to state the properties\<close>

text \<open>An action that changes nothing of the world but its history, which it extends.\<close>

definition only_history :: "'a act \<Rightarrow> bool" where
  "only_history m = (\<forall>w. \<exists>evs. snd (m w) = w\<lparr>history := history w @ evs\<rparr>)"

text \<open>What a flow that returned \<open>(b, err)\<close> adds to the error text.\<close>

definition flow_message :: "string \<Rightarrow> string \<Rightarrow> string" where
  "flow_message name err = (if err \<noteq> [] then name @ '': '' @ err @ ''; '' else [])"

text \<open>
  The dictionary a cycle returns, from the calendar reading and the two timed flow
  results.
\<close>

definition snapshot :: "string \<Rightarrow> (bool \<times> string) \<times> real \<Rightarrow> (bool \<times> string) \<times> real \<Rightarrow> pydict" where
  "snapshot now l d =
     [(''flows'', PDict [(''login'', PBool (fst (fst l))), (''debit'', PBool (fst (fst d)))]),
      (''success'', PBool (fst (fst l) \<and> fst (fst d))),
      (''error'',
         PStr (flow_message ''LOGIN'' (snd (fst l)) @ flow_message ''DEBIT'' (snd (fst d)))),
      (''duration'', PFloat (round2 (round2 (0 + snd l) + snd d))),
      (''date'', PStr now)]"






text \<open>
  In a history, \<open>a\<close> happens before \<open>b\<close>: \<open>a\<close> occurs, and \<open>b\<close> does not
  occur before the first \<open>a\<close>.
\<close>

fun happens_before :: "event \<Rightarrow> event \<Rightarrow> event list \<Rightarrow> bool" where
  "happens_before a b [] = False"
| "happens_before a b (x # xs) =
     (if x = a then True else if x = b then False else happens_before a b xs)"

subsection \<open>Concrete environments\<close>

text \<open>
  A browser whose failures depend on the request only, with a location oracle, a clock
  whose k-th reading is \<open>ticks k\<close>, and a fixed calendar reading.
\<close>

definition portal :: "(event \<Rightarrow> exn option) \<Rightarrow> (event list \<Rightarrow> string) \<Rightarrow> (nat \<Rightarrow> real) \<Rightarrow> env" where
  "portal failing loc ticks =
     \<lparr>raises = (\<lambda>h. failing),
      location = loc,
      clock = (\<lambda>h. ticks (length (filter (\<lambda>e. e = TimeRead) h))),
      calendar = (\<lambda>h. ''2024-05-01 12:00:00'')\<rparr>"

text \<open>The location is the page of the last navigation.\<close>

definition visited :: "event list \<Rightarrow> string" where
  "visited h = foldl (\<lambda>u e. case e of DriverGet v \<Rightarrow> v | _ \<Rightarrow> u) ''data:,'' h"


definition no_failure :: "event \<Rightarrow> exn option" where
  "no_failure ev = None"

definition timeout_on :: "string \<Rightarrow> event \<Rightarrow> exn option" where
  "timeout_on ident ev = (if ev = WaitVisible ident then Some TimeoutException else None)"

definition refuses_click :: "string \<Rightarrow> event \<Rightarrow> exn option" where
  "refuses_click ident ev = (if ev = ElemClick ident then Some WebDriverException else None)"

definition unreachable :: "string \<Rightarrow> event \<Rightarrow> exn option" where
  "unreachable url ev = (if ev = DriverGet url then Some WebDriverException else None)"

definition seconds :: "nat \<Rightarrow> real" where
  "seconds k = real k"


definition cfg123 :: config where
  "cfg123 =
     \<lparr>username = ''user'', password = ''secret'', institution = ''123'',
      persistent_driver = True, render_timeout = 30, driver_dir = ''/tmp/chrome''\<rparr>"

definition cfg_ephemeral :: config where
  "cfg_ephemeral = cfg123\<lparr>persistent_driver := False\<rparr>"

text \<open>The world right after the constructor of a persistent monitor.\<close>

definition ready :: world where
  "ready = \<lparr>history = [DriverCreate 0], driver = Some 0, created = 1, OUTPUT = []\<rparr>"


section \<open>Properties\<close>

subsection \<open>What a cycle returns\<close>

lemma upper_login: "upper ''login'' = ''LOGIN''"
  by code_simp

lemma upper_debit: "upper ''debit'' = ''DEBIT''"
  by code_simp

lemma store_flow_login:
  "store_flow [(''flows'', PDict []), (''success'', PBool False), (''error'', PStr []),
       (''duration'', PFloat 0), (''date'', PStr now)] ''login'' b e t =
     Inr [(''flows'', PDict [(''login'', PBool b)]),
          (''success'', PBool False),
          (''error'', PStr (flow_message ''LOGIN'' e)),
          (''duration'', PFloat (round2 (0 + t))),
          (''date'', PStr now)]"
  by (simp add: store_flow_def setitem_def getitem_def bind_exn_def
      as_dict_def as_str_def as_float_def upper_login flow_message_def)

lemma store_flow_debit:
  "store_flow [(''flows'', PDict [(''login'', PBool b1)]),
          (''success'', PBool False),
          (''error'', PStr m),
          (''duration'', PFloat r),
          (''date'', PStr now)] ''debit'' b e t =
     Inr [(''flows'', PDict [(''login'', PBool b1), (''debit'', PBool b)]),
          (''success'', PBool False),
          (''error'', PStr (m @ flow_message ''DEBIT'' e)),
          (''duration'', PFloat (round2 (r + t))),
          (''date'', PStr now)]"
  by (simp add: store_flow_def setitem_def getitem_def bind_exn_def
      as_dict_def as_str_def as_float_def upper_debit flow_message_def)

lemma flows_ok_two:
  "flows_ok [(''flows'', PDict [(''login'', PBool b1), (''debit'', PBool b2)]),
          (''success'', s), (''error'', m), (''duration'', r), (''date'', d)] = Inr (b1 \<and> b2)"
  by (simp add: flows_ok_def flows_def getitem_def bind_exn_def as_dict_def eq_False_def)

lemma execute_returns_iff:
  "execute cfg env w = (Inr out, w') \<longleftrightarrow>
     (\<exists>l w1 d.
        timed_flow cfg env ''login'' (record_event DateRead w) = (Inr l, w1) \<and>
        timed_flow cfg env ''debit'' w1 = (Inr d, w') \<and>
        out = snapshot (calendar env (history w)) l d)"
  by (auto simp add: execute_def flows_def seq_def datetime_now_def return_def lift_def
      store_flow_login store_flow_debit flows_ok_two snapshot_def setitem_def class_output_def
      split: prod.splits sum.splits)

lemma execute_returned:
  assumes "fst (execute cfg env w) = Inr out"
  obtains l w1 d w2 where
    "timed_flow cfg env ''login'' (record_event DateRead w) = (Inr l, w1)"
    "timed_flow cfg env ''debit'' w1 = (Inr d, w2)"
    "out = snapshot (calendar env (history w)) l d"
    "execute cfg env w = (Inr out, w2)"
proof -
  obtain w2 where "execute cfg env w = (Inr out, w2)"
    using assms by (cases "execute cfg env w") simp
  then show thesis
    using that by (auto simp add: execute_returns_iff)
qed



text \<open>
  Claim C2. In every snapshot that \<open>execute\<close> returns, \<open>success\<close> is true
  if and only if every value of the \<open>flows\<close> mapping is true, where the mapping is the
  finished one, holding an entry for each configured flow.
\<close>

theorem execute_success_iff:
  assumes "fst (execute cfg env w) = Inr out"
  shows "\<exists>d s. getitem out ''flows'' = Inr (PDict d) \<and>
               map fst d = flows \<and>
               getitem out ''success'' = Inr (PBool s) \<and>
               (s \<longleftrightarrow> list_all (\<lambda>kv. snd kv = PBool True) d)"
proof -
  from assms obtain l w1 d w2 where
    out: "out = snapshot (calendar env (history w)) l d"
    by (rule execute_returned)
  show ?thesis
    by (simp add: out snapshot_def getitem_def flows_def)
qed

text \<open>Witness for C2: a cycle in which the debit flow fails.\<close>

theorem execute_success_iff_witness:
  "fst (execute cfg123 (portal (timeout_on ''detalii_123'') visited seconds) ready) =
     Inr [(''flows'', PDict [(''login'', PBool True), (''debit'', PBool False)]),
          (''success'', PBool False),
          (''error'', PStr ''DEBIT: Could not find pay button for instituion; ''),
          (''duration'', PFloat 2),
          (''date'', PStr ''2024-05-01 12:00:00'')] \<and>
   (\<exists>d s.
      getitem [(''flows'', PDict [(''login'', PBool True), (''debit'', PBool False)]),
          (''success'', PBool False),
          (''error'', PStr ''DEBIT: Could not find pay button for instituion; ''),
          (''duration'', PFloat 2),
          (''date'', PStr ''2024-05-01 12:00:00'')] ''flows'' = Inr (PDict d) \<and>
      map fst d = flows \<and>
      getitem [(''flows'', PDict [(''login'', PBool True), (''debit'', PBool False)]),
          (''success'', PBool False),
          (''error'', PStr ''DEBIT: Could not find pay button for instituion; ''),
          (''duration'', PFloat 2),
          (''date'', PStr ''2024-05-01 12:00:00'')] ''success'' = Inr (PBool s) \<and>
      (s \<longleftrightarrow> list_all (\<lambda>kv. snd kv = PBool True) d))"
proof -
  have h: "fst (execute cfg123 (portal (timeout_on ''detalii_123'') visited seconds) ready) =
     Inr [(''flows'', PDict [(''login'', PBool True), (''debit'', PBool False)]),
          (''success'', PBool False),
          (''error'', PStr ''DEBIT: Could not find pay button for instituion; ''),
          (''duration'', PFloat 2),
          (''date'', PStr ''2024-05-01 12:00:00'')]"
    by code_simp
  show ?thesis
    using h execute_success_iff [OF h] by (intro conjI)
qed

subsection \<open>The login flow\<close>



subsection \<open>Failures of the navigation\<close>

text \<open>
  Whatever the browser does after the navigation, the flows return: every later failure
  is caught and becomes \<open>(False, message)\<close>.
\<close>

lemma guarded_returns:
  assumes "\<And>w1. \<not> isl (fst (rest w1))"
  shows "\<not> isl (fst (guarded body err rest w))"
  by (simp add: guarded_def assms split: prod.splits sum.splits)

lemma return_returns: "\<not> isl (fst (return a w))"
  by (simp add: return_def)

lemma login_returns_after_navigation:
  assumes "driver w = Some k"
    and "raises env (history w) (DriverGet login_page) = None"
    and "raises env (history w @ [DriverGet login_page]) DriverCurrentUrl = None"
    and "location env (history w @ [DriverGet login_page]) = login_page"
  shows "\<exists>b msg. fst (login cfg env w) = Inr (b, msg)"
proof -
  have "\<not> isl (fst (login cfg env w))"
    using assms
    by (simp add: login_def andthen_def seq_def driver_get_def current_url_def with_driver_def
        browser_call_def record_event_def guarded_returns return_returns)
  then show ?thesis
    by (cases "fst (login cfg env w)") auto
qed

lemma debit_returns_after_navigation:
  assumes "driver w = Some k"
    and "raises env (history w) DriverCurrentUrl = None"
    and "location env (history w) \<noteq> debit_page \<longrightarrow>
           raises env (history w @ [DriverCurrentUrl]) (DriverGet debit_page) = None"
  shows "\<exists>b msg. fst (debit cfg env w) = Inr (b, msg)"
proof -
  have "\<not> isl (fst (debit cfg env w))"
    using assms
    by (simp add: debit_def andthen_def seq_def driver_get_def current_url_def with_driver_def
        browser_call_def record_event_def guarded_returns return_returns return_def)
  then show ?thesis
    by (cases "fst (debit cfg env w)") auto
qed

text \<open>
  Claim C3 says that every failure inside a flow, a failed navigation included, is caught
  in the flow and turned into \<open>(False, message)\<close>. The navigation at the head of
  each flow stands outside every \<open>try\<close>: when the browser raises on
  \<open>driver.get\<close> the exception leaves the flow, leaves \<open>execute\<close>, and ends
  \<open>run\<close> in its first iteration; the same for the navigation to the debit page.
\<close>

theorem navigation_failure_escapes:
  "fst (login cfg123 (portal (unreachable login_page) visited seconds) ready) =
     Inl WebDriverException \<and>
   fst (execute cfg123 (portal (unreachable login_page) visited seconds) ready) =
     Inl WebDriverException \<and>
   fst (main 3 cfg123 (portal (unreachable login_page) visited seconds) 10 world0) =
     Inl WebDriverException \<and>
   fst (debit cfg123 (portal (unreachable debit_page) visited seconds) ready) =
     Inl WebDriverException \<and>
   fst (main 3 cfg123 (portal (unreachable debit_page) visited seconds) 10 world0) =
     Inl WebDriverException"
  by code_simp

subsection \<open>The messages of the debit flow\<close>

text \<open>
  Claim C5 gives the message of a failed wait for the show button as "Could not find show
  button for institution". The debit flow returns the message with the word misspelt
  ("instituion"), and so does the error text of the snapshot.
\<close>

theorem debit_show_button_message:
  "fst (debit cfg123 (portal (timeout_on ''showDebiteBtn_123'') visited seconds) ready) =
     Inr (False, ''Could not find show button for instituion'') \<and>
   fst (debit cfg123 (portal (refuses_click ''showDebiteBtn_123'') visited seconds) ready) =
     Inr (False, ''Could not find show button for instituion'') \<and>
   fst (execute cfg123 (portal (timeout_on ''showDebiteBtn_123'') visited seconds) ready) =
     Inr [(''flows'', PDict [(''login'', PBool True), (''debit'', PBool False)]),
          (''success'', PBool False),
          (''error'', PStr ''DEBIT: Could not find show button for instituion; ''),
          (''duration'', PFloat 2),
          (''date'', PStr ''2024-05-01 12:00:00'')] \<and>
   ''DEBIT: Could not find show button for instituion; '' \<noteq>
   ''DEBIT: Could not find show button for institution; ''"
  by code_simp

subsection \<open>What the flows and a cycle leave untouched\<close>

lemma only_historyI:
  assumes "\<And>w. \<exists>evs. snd (m w) = w\<lparr>history := history w @ evs\<rparr>"
  shows "only_history m"
  using assms by (simp add: only_history_def)

lemma only_historyD:
  assumes "only_history m"
  obtains evs where "snd (m w) = w\<lparr>history := history w @ evs\<rparr>"
  using assms by (auto simp add: only_history_def)

lemma extend_by_nothing: "\<exists>evs. w = w\<lparr>history := history w @ evs\<rparr>"
  by (rule exI [of _ "[]"]) simp

lemma only_history_return: "only_history (return a)"
  by (rule only_historyI) (simp add: return_def extend_by_nothing)

lemma only_history_raise: "only_history (raise e)"
  by (rule only_historyI) (simp add: raise_def extend_by_nothing)

lemma only_history_lift: "only_history (lift r)"
  by (rule only_historyI) (simp add: lift_def extend_by_nothing)

lemma only_history_seq:
  assumes m: "only_history m" and f: "\<And>a. only_history (f a)"
  shows "only_history (seq m f)"
proof (rule only_historyI)
  fix w
  obtain r w1 where mw: "m w = (r, w1)"
    by (cases "m w") auto
  obtain xs where xs: "w1 = w\<lparr>history := history w @ xs\<rparr>"
    using only_historyD [OF m, of w] mw by auto
  show "\<exists>evs. snd (seq m f w) = w\<lparr>history := history w @ evs\<rparr>"
  proof (cases r)
    case (Inl e)
    then show ?thesis
      using mw xs by (auto simp add: seq_def)
  next
    case (Inr a)
    obtain ys where ys: "snd (f a w1) = w1\<lparr>history := history w1 @ ys\<rparr>"
      using only_historyD [OF f, of a w1] by auto
    have "snd (seq m f w) = w\<lparr>history := history w @ (xs @ ys)\<rparr>"
      using Inr mw ys by (simp add: seq_def xs)
    then show ?thesis
      by blast
  qed
qed

lemma only_history_andthen:
  assumes "only_history m" and "only_history k"
  shows "only_history (andthen m k)"
  unfolding andthen_def using assms by (intro only_history_seq)

lemma only_history_guarded:
  assumes m: "only_history body" and k: "only_history rest"
  shows "only_history (guarded body err rest)"
proof (rule only_historyI)
  fix w
  obtain r w1 where mw: "body w = (r, w1)"
    by (cases "body w") auto
  obtain xs where xs: "w1 = w\<lparr>history := history w @ xs\<rparr>"
    using only_historyD [OF m, of w] mw by auto
  show "\<exists>evs. snd (guarded body err rest w) = w\<lparr>history := history w @ evs\<rparr>"
  proof (cases r)
    case (Inl e)
    then show ?thesis
      using mw xs by (auto simp add: guarded_def)
  next
    case (Inr a)
    obtain ys where ys: "snd (rest w1) = w1\<lparr>history := history w1 @ ys\<rparr>"
      using only_historyD [OF k, of w1] by auto
    have "snd (guarded body err rest w) = w\<lparr>history := history w @ (xs @ ys)\<rparr>"
      using Inr mw ys by (simp add: guarded_def xs)
    then show ?thesis
      by blast
  qed
qed

lemma only_history_browser_call: "only_history (browser_call env ev)"
  by (rule only_historyI) (auto simp add: browser_call_def record_event_def split: option.splits)

lemma only_history_with_driver:
  assumes "\<And>k. only_history (f k)"
  shows "only_history (with_driver f)"
proof (rule only_historyI)
  fix w
  show "\<exists>evs. snd (with_driver f w) = w\<lparr>history := history w @ evs\<rparr>"
  proof (cases "driver w")
    case None
    have "snd (with_driver f w) = w\<lparr>history := history w @ []\<rparr>"
      using None by (simp add: with_driver_def)
    then show ?thesis
      by blast
  next
    case (Some k)
    then show ?thesis
      using only_historyD [OF assms, of k w] by (auto simp add: with_driver_def)
  qed
qed

lemma only_history_current_url: "only_history (current_url env)"
  unfolding current_url_def
  by (rule only_history_with_driver, rule only_historyI)
     (auto simp add: record_event_def split: option.splits)

lemma only_history_sleep: "only_history (sleep secs)"
proof (rule only_historyI)
  fix w
  show "\<exists>evs. snd (sleep secs w) = w\<lparr>history := history w @ evs\<rparr>"
  proof (cases "secs < 0")
    case True
    have "snd (sleep secs w) = w\<lparr>history := history w @ []\<rparr>"
      using True by (simp add: sleep_def)
    then show ?thesis
      by blast
  next
    case False
    then show ?thesis
      by (auto simp add: sleep_def record_event_def)
  qed
qed

lemma only_history_time_time: "only_history (time_time env)"
  by (rule only_historyI) (auto simp add: time_time_def record_event_def)

lemma only_history_datetime_now: "only_history (datetime_now env)"
  by (rule only_historyI) (auto simp add: datetime_now_def record_event_def)

lemmas only_history_steps =
  only_history_return only_history_raise only_history_lift only_history_seq
  only_history_andthen only_history_guarded only_history_browser_call
  only_history_with_driver only_history_current_url only_history_sleep
  only_history_time_time only_history_datetime_now


lemma only_history_login: "only_history (login cfg env)"
  unfolding login_def driver_get_def wait_until_visible_def find_element_def click_def
    send_keys_def submit_def
  by (intro only_history_steps allI impI) (auto intro!: only_history_steps)

lemma only_history_debit: "only_history (debit cfg env)"
  unfolding debit_def driver_get_def wait_until_visible_def find_element_def click_def
  by (intro only_history_steps allI impI) (auto intro!: only_history_steps)

lemma only_history_timed_flow: "only_history (timed_flow cfg env flow)"
  unfolding timed_flow_def call_flow_def
  by (auto intro!: only_history_steps only_history_login only_history_debit)

lemma only_history_run_flows: "only_history (run_flows fs cfg env out)"
proof (induction fs arbitrary: out)
  case Nil
  show ?case
    by (simp add: only_history_return)
next
  case (Cons flow rest)
  show ?case
    by (auto intro!: only_history_steps only_history_timed_flow Cons.IH)
qed

lemma only_history_execute: "only_history (execute cfg env)"
  unfolding execute_def
  by (auto intro!: only_history_steps only_history_run_flows)

subsection \<open>One iteration of run\<close>

lemma execute_keeps:
  assumes "execute cfg env w = (r, w')"
  shows "driver w' = driver w" and "created w' = created w" and "OUTPUT w' = OUTPUT w"
proof -
  obtain evs where "snd (execute cfg env w) = w\<lparr>history := history w @ evs\<rparr>"
    using only_history_execute by (rule only_historyD)
  then have "w' = w\<lparr>history := history w @ evs\<rparr>"
    using assms by simp
  then show "driver w' = driver w" and "created w' = created w" and "OUTPUT w' = OUTPUT w"
    by simp_all
qed





lemma iteration_ephemeral_iff:
  assumes "\<not> persistent_driver cfg"
  shows "iteration cfg env refresh w = (Inr u, w') \<longleftrightarrow>
     (\<exists>w1 out w2.
        create_driver env w = (Inr (), w1) \<and>
        execute cfg env w1 = (Inr out, w2) \<and> 0 \<le> refresh \<and>
        quit env (w2\<lparr>OUTPUT := out,
                     history := history w2 @ [OutputWritten, Sleep (of_int (refresh * 60))]\<rparr>) =
          (Inr (), w'))"
  using assms
  by (auto simp add: iteration_def andthen_def seq_def return_def write_OUTPUT_def sleep_def
      record_event_def split: prod.splits sum.splits)



text \<open>
  Claim C4, amended. In an iteration of \<open>run\<close> without persistent driver that runs
  to its end, a fresh session is created before the cycle's first step, the cycle runs in
  it, its snapshot is written to \<open>OUTPUT\<close>, then comes the sleep of
  \<open>refresh\<close> minutes, and only after the sleep is that session closed; the next
  iteration creates a session of its own.
\<close>

theorem iteration_ephemeral_order:
  assumes "\<not> persistent_driver cfg"
    and "iteration cfg env refresh w = (Inr (), w')"
  shows "\<exists>w1 out w2.
           create_driver env w = (Inr (), w1) \<and>
           history w1 = history w @ [DriverCreate (created w)] \<and>
           driver w1 = Some (created w) \<and>
           execute cfg env w1 = (Inr out, w2) \<and>
           OUTPUT w' = out \<and>
           history w' =
             history w2 @ [OutputWritten, Sleep (of_int (refresh * 60)), DriverQuit (created w)] \<and>
           created w' = Suc (created w)"
proof -
  from assms obtain w1 out w2 where
    cr: "create_driver env w = (Inr (), w1)" and
    ex: "execute cfg env w1 = (Inr out, w2)" and
    q: "quit env (w2\<lparr>OUTPUT := out,
          history := history w2 @ [OutputWritten, Sleep (of_int (refresh * 60))]\<rparr>) = (Inr (), w')"
    by (auto simp add: iteration_ephemeral_iff)
  have w1: "history w1 = history w @ [DriverCreate (created w)]"
    "driver w1 = Some (created w)" "created w1 = Suc (created w)"
    using cr by (auto simp add: create_driver_def Let_def record_event_def split: option.splits)
  have w2: "driver w2 = Some (created w)" "created w2 = Suc (created w)"
    using execute_keeps [OF ex] w1 by simp_all
  have w': "OUTPUT w' = out"
    "history w' =
       history w2 @ [OutputWritten, Sleep (of_int (refresh * 60)), DriverQuit (created w)]"
    "created w' = Suc (created w)"
    using q w2
    by (auto simp add: quit_def with_driver_def browser_call_def record_event_def
        split: option.splits)
  show ?thesis
    using cr ex w1 w' by blast
qed

text \<open>Witness for C4 as amended: the first iteration against a browser that never fails.\<close>

theorem iteration_ephemeral_order_witness:
  "\<not> persistent_driver cfg_ephemeral \<and>
   fst (iteration cfg_ephemeral (portal no_failure visited seconds) 10 world0) = Inr () \<and>
   (\<exists>w1 out w2.
      create_driver (portal no_failure visited seconds) world0 = (Inr (), w1) \<and>
      history w1 = history world0 @ [DriverCreate (created world0)] \<and>
      driver w1 = Some (created world0) \<and>
      execute cfg_ephemeral (portal no_failure visited seconds) w1 = (Inr out, w2) \<and>
      OUTPUT (snd (iteration cfg_ephemeral (portal no_failure visited seconds) 10 world0)) = out \<and>
      history (snd (iteration cfg_ephemeral (portal no_failure visited seconds) 10 world0)) =
        history w2 @ [OutputWritten, Sleep (of_int (10 * 60)), DriverQuit (created world0)] \<and>
      created (snd (iteration cfg_ephemeral (portal no_failure visited seconds) 10 world0)) =
        Suc (created world0))"
proof -
  have a: "\<not> persistent_driver cfg_ephemeral"
    by (simp add: cfg_ephemeral_def)
  have b: "fst (iteration cfg_ephemeral (portal no_failure visited seconds) 10 world0) = Inr ()"
    by code_simp
  have c: "iteration cfg_ephemeral (portal no_failure visited seconds) 10 world0 =
     (Inr (), snd (iteration cfg_ephemeral (portal no_failure visited seconds) 10 world0))"
    using b by (simp add: prod_eq_iff)
  show ?thesis
    using a b iteration_ephemeral_order [OF a c] by (intro conjI)
qed

text \<open>
  Counterexample to C4 as stated (the session closed before the sleep begins): in the
  first iteration the sleep of 600 seconds comes before the session is closed.
\<close>

theorem ephemeral_quit_after_sleep:
  "fst (main 1 cfg_ephemeral (portal no_failure visited seconds) 10 world0) = Inr 1 \<and>
   happens_before (Sleep 600) (DriverQuit 0)
     (history (snd (main 1 cfg_ephemeral (portal no_failure visited seconds) 10 world0))) \<and>
   \<not> happens_before (DriverQuit 0) (Sleep 600)
     (history (snd (main 1 cfg_ephemeral (portal no_failure visited seconds) 10 world0)))"
  by code_simp

subsection \<open>The duration of a cycle\<close>






subsection \<open>The web route\<close>




subsection \<open>quit\<close>




end
